theory Spec2Isabelle
  imports Main
begin

section \<open>Data model of tfatool/sync.py\<close>

text \<open>\<^verbatim>\<open>class Direction(str, Enum)\<close>: the two transfer directions.\<close>

datatype Direction = up | down

text \<open>
  The exceptions the modelled code can raise. \<open>KeyboardInterrupt\<close> and \<open>SystemExit\<close>
  derive from \<open>BaseException\<close> only; every other one derives from \<open>Exception\<close>.
\<close>

datatype pyerror =
    AttributeError | TypeError | AssertionError | FileNotFoundError
  | RequestException | ConnectionError | OSError | RuntimeError
  | KeyboardInterrupt | SystemExit

fun is_Exception :: "pyerror \<Rightarrow> bool" where
  "is_Exception KeyboardInterrupt = False"
| "is_Exception SystemExit = False"
| "is_Exception _ = True"

text \<open>
  \<open>SimpleFileInfo(directory, filename, path, size, datetime)\<close> as \<open>list_local_files\<close>
  builds it; the remote \<open>FileInfo\<close> of \<open>command.list_files\<close> is read through the same
  fields (\<open>filename\<close>, \<open>path\<close>, \<open>size\<close>), its timestamp possibly absent.
\<close>

record fileinfo =
  directory :: string
  filename :: string
  path :: string
  size :: nat
  datetime :: "nat option"

text \<open>
  Modelled from the spec: the module \<open>info\<close> that declares the record classes and their
  equality is not part of the sources. The identity of a record inside a Python \<open>set\<close> is
  the key the specification gives: the filename for a remote record, and filename, size
  and timestamp for a local one.
\<close>

definition remote_key :: "fileinfo \<Rightarrow> string" where
  "remote_key f = filename f"

definition local_key :: "fileinfo \<Rightarrow> string \<times> nat \<times> nat option" where
  "local_key f = (filename f, size f, datetime f)"

text \<open>
  A Python \<open>set\<close> of records is a list without two elements of the same key.
  \<open>py_set\<close> is \<open>set(iterable)\<close>: a later element whose key is already present is dropped.
  \<open>set_diff\<close> is the operator \<open>new - old\<close>, and \<open>not s\<close> / \<open>if s:\<close> test for the empty list.
\<close>

fun set_add :: "('a \<Rightarrow> 'k) \<Rightarrow> 'a list \<Rightarrow> 'a \<Rightarrow> 'a list" where
  "set_add key acc x = (if key x \<in> set (map key acc) then acc else acc @ [x])"

definition py_set :: "('a \<Rightarrow> 'k) \<Rightarrow> 'a list \<Rightarrow> 'a list" where
  "py_set key xs = foldl (set_add key) [] xs"

definition set_diff :: "('a \<Rightarrow> 'k) \<Rightarrow> 'a list \<Rightarrow> 'a list \<Rightarrow> 'a list" where
  "set_diff key new old = filter (\<lambda>f. key f \<notin> set (map key old)) new"

text \<open>A directory entry as \<open>scandir\<close> returns it.\<close>

record direntry =
  name :: string
  is_file :: bool
  st_size :: nat
  st_mtime :: nat

text \<open>The attributes of \<open>Session\<close> that sync.py reads.\<close>

record session =
  url :: string
  local_dir :: string
  remote_dir :: string
  filters :: "(fileinfo \<Rightarrow> bool) list"

text \<open>One chunk of \<open>response.iter_content\<close>: its length, or the error the iteration raises.\<close>

datatype chunk = Chunk nat | ChunkError pyerror

record response =
  status_code :: nat
  iter_content :: "chunk list"

text \<open>
  The collaborators outside the module, as oracles: the \<open>n\<close>-th call of \<open>scandir\<close>, of
  \<open>command.list_files\<close> and of \<open>command.memory_changed\<close> returns the \<open>n\<close>-th value;
  \<open>requests.get\<close>, \<open>upload.upload_file\<close> and \<open>pbar.update\<close> answer by argument
  (\<open>Some e\<close> or \<open>Inl e\<close>: the call raises \<open>e\<close>); \<open>session_path\<close> is what reading the
  attribute \<open>path\<close> of a \<open>Session\<close> object gives (the class is declared outside the
  module, which reads only the four attributes above); \<open>default_session\<close> is the
  \<open>Session()\<close> of the default arguments.
\<close>

record env =
  scandir :: "nat \<Rightarrow> direntry list"
  list_files :: "nat \<Rightarrow> fileinfo list"
  memory_changed :: "nat \<Rightarrow> bool"
  map_files_raw :: "string \<rightharpoonup> fileinfo"
  requests_get :: "string \<Rightarrow> pyerror + response"
  session_path :: "pyerror + string"
  upload_file :: "string \<Rightarrow> pyerror option"
  pbar_update :: "nat \<Rightarrow> pyerror option"
  default_session :: session

text \<open>What the program does to the world, in order.\<close>

datatype event =
    ScanDir
  | ListFiles
  | MemoryChanged bool
  | MapFilesRaw
  | Yield Direction "fileinfo list"
  | UploadFile string
  | DeleteFile string
  | GetFile string
  | OpenFile string
  | WriteChunk string nat
  | OsRemove string
  | PbarUpdate nat
  | Sleep

text \<open>
  The world: how many times each polled collaborator has been called, the local files
  (path to size) and the log of events.
\<close>

record world =
  scandir_calls :: nat
  list_calls :: nat
  changed_calls :: nat
  files :: "string \<rightharpoonup> nat"
  log :: "event list"

definition emit :: "event \<Rightarrow> world \<Rightarrow> world" where
  "emit e w = w\<lparr>log := log w @ [e]\<rparr>"

section \<open>Listing\<close>

text \<open>\<open>str(Path(directory, name))\<close> for a plain file name.\<close>

definition path_join :: "string \<Rightarrow> string \<Rightarrow> string" where
  "path_join d n = d @ ''/'' @ n"

text \<open>\<open>list_local_files\<close>: the regular files of \<open>session.local_dir\<close> that pass every filter.\<close>

definition to_info :: "session \<Rightarrow> direntry \<Rightarrow> fileinfo" where
  "to_info s e = \<lparr>directory = local_dir s, filename = name e,
                  path = path_join (local_dir s) (name e),
                  size = st_size e, datetime = Some (st_mtime e)\<rparr>"

definition list_local_files :: "env \<Rightarrow> session \<Rightarrow> world \<Rightarrow> fileinfo list \<times> world" where
  "list_local_files E s w =
     (let all_entries = scandir E (scandir_calls w);
          w1 = emit ScanDir (w\<lparr>scandir_calls := Suc (scandir_calls w)\<rparr>);
          file_entries = filter is_file all_entries
      in (filter (\<lambda>info. list_all (\<lambda>filt. filt info) (filters s))
            (map (to_info s) file_entries), w1))"

text \<open>\<open>command.list_files(session)\<close> and \<open>command.memory_changed(session)\<close>.\<close>

definition command_list_files :: "env \<Rightarrow> world \<Rightarrow> fileinfo list \<times> world" where
  "command_list_files E w =
     (list_files E (list_calls w), emit ListFiles (w\<lparr>list_calls := Suc (list_calls w)\<rparr>))"

definition command_memory_changed :: "env \<Rightarrow> world \<Rightarrow> bool \<times> world" where
  "command_memory_changed E w =
     (let b = memory_changed E (changed_calls w)
      in (b, emit (MemoryChanged b) (w\<lparr>changed_calls := Suc (changed_calls w)\<rparr>)))"

section \<open>The watcher generators\<close>

text \<open>
  A generator is its local variables between two \<open>yield\<close>s: here \<open>(old_files, new_files)\<close>.
  \<open>_start\<close> runs the body from its first line to the first \<open>yield\<close>; \<open>_next\<close> resumes
  after a \<open>yield\<close> and runs to the next one. Both return the yielded pair
  \<open>(new_files - old_files, new_files)\<close>.
\<close>

type_synonym watcher = "fileinfo list \<times> fileinfo list"
type_synonym tick = "fileinfo list \<times> fileinfo list"

definition watch_local_files_start :: "env \<Rightarrow> session \<Rightarrow> world \<Rightarrow> tick \<times> watcher \<times> world" where
  "watch_local_files_start E s w =
     (let (l, w1) = list_local_files E s w;
          new_files = py_set local_key l;
          old_files = new_files
      in ((set_diff local_key new_files old_files, new_files), (old_files, new_files), w1))"

definition watch_local_files_next ::
  "env \<Rightarrow> session \<Rightarrow> watcher \<Rightarrow> world \<Rightarrow> tick \<times> watcher \<times> world" where
  "watch_local_files_next E s g w =
     (let old_files = snd g;
          (l, w1) = list_local_files E s w;
          new_files = py_set local_key l
      in ((set_diff local_key new_files old_files, new_files), (old_files, new_files), w1))"

definition watch_remote_files_start :: "env \<Rightarrow> session \<Rightarrow> world \<Rightarrow> tick \<times> watcher \<times> world" where
  "watch_remote_files_start E s w =
     (let (_, w1) = command_memory_changed E w;
          (l, w2) = command_list_files E w1;
          new_files = py_set remote_key l;
          old_files = new_files
      in ((set_diff remote_key new_files old_files, new_files), (old_files, new_files), w2))"

definition watch_remote_files_next ::
  "env \<Rightarrow> session \<Rightarrow> watcher \<Rightarrow> world \<Rightarrow> tick \<times> watcher \<times> world" where
  "watch_remote_files_next E s g w =
     (let old_files = snd g;
          (b, w1) = command_memory_changed E w;
          (new_files, w2) =
             (if b then (let (l, w2) = command_list_files E w1 in (py_set remote_key l, w2))
              else (snd g, w1))
      in ((set_diff remote_key new_files old_files, new_files), (old_files, new_files), w2))"

text \<open>
  The first \<open>n + 1\<close> values a consumer gets from a watcher by calling \<open>next\<close>, with the
  generator's state and the world after the last one.
\<close>

fun watch_local_files :: "env \<Rightarrow> session \<Rightarrow> nat \<Rightarrow> world \<Rightarrow> tick list \<times> watcher \<times> world" where
  "watch_local_files E s 0 w =
     (let (y, g, w1) = watch_local_files_start E s w in ([y], g, w1))"
| "watch_local_files E s (Suc n) w =
     (let (ys, g, w1) = watch_local_files E s n w;
          (y, g', w2) = watch_local_files_next E s g w1
      in (ys @ [y], g', w2))"

fun watch_remote_files :: "env \<Rightarrow> session \<Rightarrow> nat \<Rightarrow> world \<Rightarrow> tick list \<times> watcher \<times> world" where
  "watch_remote_files E s 0 w =
     (let (y, g, w1) = watch_remote_files_start E s w in ([y], g, w1))"
| "watch_remote_files E s (Suc n) w =
     (let (ys, g, w1) = watch_remote_files E s n w;
          (y, g', w2) = watch_remote_files_next E s g w1
      in (ys @ [y], g', w2))"

section \<open>Downloading\<close>

text \<open>
  \<open>_update_pbar\<close>: \<open>val\<close> is the float \<open>len(chunk) / (5 * 10**5)\<close>, and \<open>int(val)\<close>
  truncates it, which is the integer quotient taken here. The handler is
  \<open>except Exception\<close>: it lets an error that is not an \<open>Exception\<close> through.
\<close>

definition update_pbar :: "env \<Rightarrow> nat \<Rightarrow> world \<Rightarrow> (pyerror + unit) \<times> world" where
  "update_pbar E len w =
     (let update_val = max (len div 500000) 1;
          w1 = emit (PbarUpdate update_val) w
      in case pbar_update E update_val of
           None \<Rightarrow> (Inr (), w1)
         | Some e \<Rightarrow> (if is_Exception e then (Inr (), w1) else (Inl e, w1)))"

text \<open>The loop \<open>for chunk in response.iter_content(5*10**5)\<close> inside the \<open>with open\<close> block.\<close>

fun write_chunks :: "env \<Rightarrow> string \<Rightarrow> chunk list \<Rightarrow> world \<Rightarrow> (pyerror + unit) \<times> world" where
  "write_chunks E p [] w = (Inr (), w)"
| "write_chunks E p (ChunkError e # cs) w = (Inl e, w)"
| "write_chunks E p (Chunk n # cs) w =
     (case update_pbar E n w of
        (Inl e, w1) \<Rightarrow> (Inl e, w1)
      | (Inr _, w1) \<Rightarrow>
          write_chunks E p cs
            (emit (WriteChunk p n)
               (w1\<lparr>files := (files w1)(p \<mapsto> (case files w1 p of None \<Rightarrow> n | Some k \<Rightarrow> k + n))\<rparr>)))"

text \<open>
  \<open>_write_file\<close>: \<open>open(local_path, "wb")\<close> creates the file empty (or truncates it) before
  the first chunk is read; with another status than 200 nothing is opened.
\<close>

definition write_file :: "env \<Rightarrow> string \<Rightarrow> fileinfo \<Rightarrow> response \<Rightarrow> world \<Rightarrow> (pyerror + unit) \<times> world" where
  "write_file E local_path fi resp w =
     (if status_code resp = 200
      then write_chunks E local_path (iter_content resp)
             (emit (OpenFile local_path) (w\<lparr>files := (files w)(local_path \<mapsto> 0)\<rparr>))
      else (Inl RequestException, w))"

text \<open>\<open>os.remove\<close> raises \<open>FileNotFoundError\<close> for a path that does not exist.\<close>

definition os_remove :: "string \<Rightarrow> world \<Rightarrow> (pyerror + unit) \<times> world" where
  "os_remove p w =
     (if files w p = None then (Inl FileNotFoundError, w)
      else (Inr (), emit (OsRemove p) (w\<lparr>files := (files w)(p := None)\<rparr>)))"

text \<open>
  \<open>_write_file_safely\<close>: the handler calls \<open>os.remove(local_path)\<close> and then \<open>raise e\<close>; an
  error of \<open>os.remove\<close> leaves the handler in place of \<open>e\<close>.
\<close>

definition write_file_safely ::
  "env \<Rightarrow> string \<Rightarrow> fileinfo \<Rightarrow> response \<Rightarrow> world \<Rightarrow> (pyerror + unit) \<times> world" where
  "write_file_safely E local_path fi resp w =
     (case write_file E local_path fi resp w of
        (Inr u, w1) \<Rightarrow> (Inr u, w1)
      | (Inl e, w1) \<Rightarrow>
          (case os_remove local_path w1 of
             (Inl e', w2) \<Rightarrow> (Inl e', w2)
           | (Inr _, w2) \<Rightarrow> (Inl e, w2)))"

text \<open>\<open>urljoin(session.url, fileinfo.path)\<close> for a base without a path and an absolute path.\<close>

definition urljoin :: "string \<Rightarrow> string \<Rightarrow> string" where
  "urljoin base p = base @ p"

definition get_file :: "env \<Rightarrow> fileinfo \<Rightarrow> session \<Rightarrow> world \<Rightarrow> (pyerror + response) \<times> world" where
  "get_file E fi s w =
     (let u = urljoin (url s) (path fi) in (requests_get E u, emit (GetFile u) w))"

definition stream_to_file ::
  "env \<Rightarrow> string \<Rightarrow> fileinfo \<Rightarrow> session \<Rightarrow> world \<Rightarrow> (pyerror + unit) \<times> world" where
  "stream_to_file E local_name fi s w =
     (case get_file E fi s w of
        (Inl e, w1) \<Rightarrow> (Inl e, w1)
      | (Inr streaming_file, w1) \<Rightarrow> write_file_safely E local_name fi streaming_file w1)"

text \<open>\<open>_sync_remote_file\<close>: \<open>local.exists()\<close> and \<open>local.stat().st_size\<close> read the local files.\<close>

definition sync_remote_file :: "env \<Rightarrow> fileinfo \<Rightarrow> session \<Rightarrow> world \<Rightarrow> (pyerror + unit) \<times> world" where
  "sync_remote_file E remote_file_info s w =
     (let local_name = path_join (local_dir s) (filename remote_file_info);
          remote_size = size remote_file_info
      in case files w local_name of
           Some local_size \<Rightarrow>
             (if local_size = remote_size then (Inr (), w)
              else (case os_remove local_name w of
                      (Inl e, w1) \<Rightarrow> (Inl e, w1)
                    | (Inr _, w1) \<Rightarrow> stream_to_file E local_name remote_file_info s w1))
         | None \<Rightarrow> stream_to_file E local_name remote_file_info s w)"

text \<open>\<open>down_by_files\<close>: the first error ends the loop.\<close>

fun down_by_files :: "env \<Rightarrow> fileinfo list \<Rightarrow> session \<Rightarrow> world \<Rightarrow> (pyerror + unit) \<times> world" where
  "down_by_files E [] s w = (Inr (), w)"
| "down_by_files E (fi # to_sync) s w =
     (case sync_remote_file E fi s w of
        (Inl e, w1) \<Rightarrow> (Inl e, w1)
      | (Inr _, w1) \<Rightarrow> down_by_files E to_sync s w1)"

section \<open>Uploading\<close>

text \<open>
  Python binds arguments by position, whatever their class. The two arguments of
  \<open>_stream_from_file\<close> are values that are a \<open>Session\<close> or a file record, and reading an
  attribute the object does not have raises \<open>AttributeError\<close>: a file record has no
  \<open>remote_dir\<close>.
\<close>

datatype pyval = VSession session | VFileInfo fileinfo

fun attr_path :: "env \<Rightarrow> pyval \<Rightarrow> pyerror + string" where
  "attr_path E (VFileInfo f) = Inr (path f)"
| "attr_path E (VSession s) = session_path E"

fun attr_remote_dir :: "pyval \<Rightarrow> pyerror + string" where
  "attr_remote_dir (VSession s) = Inr (remote_dir s)"
| "attr_remote_dir (VFileInfo f) = Inl AttributeError"

text \<open>
  The parameter \<open>remote_files\<close> of \<open>up_by_files\<close>: \<open>None\<close> (its default), a dictionary from
  filename to record (its annotation), or the string that the orchestrators pass
  (\<open>up_by_files(new_arrivals, remote_dir)\<close>).
\<close>

datatype remote_files = RNone | RDict "string \<rightharpoonup> fileinfo" | RStr string

text \<open>\<open>a in b\<close> on two strings: \<open>a\<close> occurs in \<open>b\<close>.\<close>

fun is_substring :: "string \<Rightarrow> string \<Rightarrow> bool" where
  "is_substring xs [] = (xs = [])"
| "is_substring xs (y # ys) = (take (length xs) (y # ys) = xs \<or> is_substring xs ys)"

text \<open>\<open>upload.delete_file(path, session)\<close>: the device is asked to delete \<open>path\<close>.\<close>

definition delete_file :: "string \<Rightarrow> world \<Rightarrow> world" where
  "delete_file p w = emit (DeleteFile p) w"

text \<open>
  \<open>_upload_file_safely(fileinfo, session)\<close>: \<open>upload.upload_file(fileinfo.path, session)\<close>;
  on any error \<open>upload.delete_file(fileinfo.path, session)\<close>, then \<open>raise e\<close>.
\<close>

definition upload_file_safely :: "env \<Rightarrow> pyval \<Rightarrow> pyval \<Rightarrow> world \<Rightarrow> (pyerror + unit) \<times> world" where
  "upload_file_safely E fi s w =
     (case attr_path E fi of
        Inl e \<Rightarrow> (Inl e, w)
      | Inr p \<Rightarrow>
          (let w1 = emit (UploadFile p) w
           in case upload_file E p of
                None \<Rightarrow> (Inr (), w1)
              | Some e \<Rightarrow> (Inl e, delete_file p w1)))"

text \<open>
  \<open>_stream_from_file(fileinfo, session)\<close>: the log line reads \<open>fileinfo.path\<close> and then
  \<open>session.remote_dir\<close>, before anything is uploaded.
\<close>

definition stream_from_file :: "env \<Rightarrow> pyval \<Rightarrow> pyval \<Rightarrow> world \<Rightarrow> (pyerror + unit) \<times> world" where
  "stream_from_file E fi s w =
     (case attr_path E fi of
        Inl e \<Rightarrow> (Inl e, w)
      | Inr _ \<Rightarrow>
          (case attr_remote_dir s of
             Inl e \<Rightarrow> (Inl e, w)
           | Inr _ \<Rightarrow> upload_file_safely E fi s w))"

text \<open>
  \<open>_sync_local_file(local_file_info, remote_files, session)\<close>. The last branch is the call
  \<open>_stream_from_file(session, local_file_info)\<close> of the source, arguments in that order.
  On a string, \<open>in\<close> is the substring test and \<open>remote_files[local_name]\<close> raises
  \<open>TypeError\<close>; \<open>in\<close> on \<open>None\<close> raises \<open>TypeError\<close>.
\<close>

definition sync_local_file ::
  "env \<Rightarrow> fileinfo \<Rightarrow> remote_files \<Rightarrow> session \<Rightarrow> world \<Rightarrow> (pyerror + unit) \<times> world" where
  "sync_local_file E local_file_info rf s w =
     (let local_name = filename local_file_info;
          local_size = size local_file_info
      in case rf of
           RNone \<Rightarrow> (Inl TypeError, w)
         | RStr str \<Rightarrow>
             (if is_substring local_name str then (Inl TypeError, w)
              else stream_from_file E (VSession s) (VFileInfo local_file_info) w)
         | RDict m \<Rightarrow>
             (case m local_name of
                Some remote_file_info \<Rightarrow>
                  (let remote_size = size remote_file_info
                   in if local_size = remote_size then (Inr (), w)
                      else stream_from_file E (VFileInfo local_file_info) (VSession s)
                             (delete_file (path remote_file_info) w))
              | None \<Rightarrow> stream_from_file E (VSession s) (VFileInfo local_file_info) w))"

fun up_loop :: "env \<Rightarrow> fileinfo list \<Rightarrow> remote_files \<Rightarrow> session \<Rightarrow> world \<Rightarrow> (pyerror + unit) \<times> world" where
  "up_loop E [] rf s w = (Inr (), w)"
| "up_loop E (local_file # to_sync) rf s w =
     (case sync_local_file E local_file rf s w of
        (Inl e, w1) \<Rightarrow> (Inl e, w1)
      | (Inr _, w1) \<Rightarrow> up_loop E to_sync rf s w1)"

text \<open>\<open>up_by_files(to_sync, remote_files, session)\<close>.\<close>

definition up_by_files ::
  "env \<Rightarrow> fileinfo list \<Rightarrow> remote_files \<Rightarrow> session \<Rightarrow> world \<Rightarrow> (pyerror + unit) \<times> world" where
  "up_by_files E to_sync rf s w =
     (if rf = RNone then up_loop E to_sync (RDict (map_files_raw E)) s (emit MapFilesRaw w)
      else up_loop E to_sync rf s w)"

section \<open>The orchestrators\<close>

text \<open>
  Each orchestrator is a generator around one or two watchers. \<open>_start\<close> is the code before
  the \<open>for\<close> loop; \<open>_tick\<close> is one iteration of the loop, whose \<open>yield\<close>s are the events
  \<open>Yield\<close> of the log, in the place where the generator is suspended. An error ends the
  generator (\<open>Inl\<close>).
\<close>

definition up_by_arrival_start :: "env \<Rightarrow> session \<Rightarrow> world \<Rightarrow> watcher \<times> world" where
  "up_by_arrival_start E s w = snd (watch_local_files_start E s w)"

definition up_by_arrival_tick ::
  "env \<Rightarrow> session \<Rightarrow> watcher \<Rightarrow> world \<Rightarrow> (pyerror + watcher) \<times> world" where
  "up_by_arrival_tick E s g w =
     (let ((new_arrivals, file_set), g', w1) = watch_local_files_next E s g w;
          w2 = emit (Yield up new_arrivals) w1
      in if new_arrivals \<noteq> []
         then (case up_by_files E new_arrivals (RStr (remote_dir s)) (default_session E) w2 of
                 (Inl e, w3) \<Rightarrow> (Inl e, w3)
               | (Inr _, w3) \<Rightarrow> (Inr g', w3))
         else (Inr g', w2))"

definition down_by_arrival_start :: "env \<Rightarrow> session \<Rightarrow> world \<Rightarrow> watcher \<times> world" where
  "down_by_arrival_start E s w = snd (watch_remote_files_start E s w)"

definition down_by_arrival_tick ::
  "env \<Rightarrow> session \<Rightarrow> watcher \<Rightarrow> world \<Rightarrow> (pyerror + watcher) \<times> world" where
  "down_by_arrival_tick E s g w =
     (let ((new_arrivals, file_set), g', w1) = watch_remote_files_next E s g w
      in if new_arrivals \<noteq> []
         then (case down_by_files E new_arrivals s w1 of
                 (Inl e, w2) \<Rightarrow> (Inl e, w2)
               | (Inr _, w2) \<Rightarrow> (Inr g', emit (Yield down new_arrivals) w2))
         else (Inr g', emit (Yield down new_arrivals) w1))"

text \<open>
  \<open>up_down_by_arrival\<close>: the state is the two watchers and the set \<open>processed\<close> of
  filenames. \<open>zip\<close> advances the local watcher, then the remote one, before the body.
\<close>

record both =
  local_monitor :: watcher
  remote_monitor :: watcher
  processed :: "string list"

definition up_down_by_arrival_start :: "env \<Rightarrow> session \<Rightarrow> world \<Rightarrow> both \<times> world" where
  "up_down_by_arrival_start E s w =
     (let (_, lm, w1) = watch_local_files_start E s w;
          (_, rm, w2) = watch_remote_files_start E s w1
      in (\<lparr>local_monitor = lm, remote_monitor = rm, processed = []\<rparr>, w2))"

text \<open>The second half of the loop body, from \<open>new_remote, remote_set = new_remote\<close> on.\<close>

definition up_down_remote_half ::
  "env \<Rightarrow> session \<Rightarrow> fileinfo list \<Rightarrow> both \<Rightarrow> world \<Rightarrow> (pyerror + both) \<times> world" where
  "up_down_remote_half E s new_remote st w =
     (let remote_arrivals = filter (\<lambda>f. filename f \<notin> set (processed st)) new_remote;
          w1 = emit (Yield down remote_arrivals) w
      in if remote_arrivals \<noteq> []
         then (let st1 = st\<lparr>processed := processed st @ map filename remote_arrivals\<rparr>;
                   w2 = emit (Yield down remote_arrivals) w1
               in case down_by_files E remote_arrivals s w2 of
                    (Inl e, w3) \<Rightarrow> (Inl e, w3)
                  | (Inr _, w3) \<Rightarrow> (Inr st1, w3))
         else (Inr st, w1))"

definition up_down_by_arrival_tick ::
  "env \<Rightarrow> session \<Rightarrow> both \<Rightarrow> world \<Rightarrow> (pyerror + both) \<times> world" where
  "up_down_by_arrival_tick E s st w =
     (let ((new_local, local_set), lm, w1) = watch_local_files_next E s (local_monitor st) w;
          ((new_remote, remote_set), rm, w2) = watch_remote_files_next E s (remote_monitor st) w1;
          st1 = st\<lparr>local_monitor := lm, remote_monitor := rm\<rparr>;
          local_arrivals = filter (\<lambda>f. filename f \<notin> set (processed st1)) new_local;
          w3 = emit (Yield up local_arrivals) w2
      in if local_arrivals \<noteq> []
         then (let st2 = st1\<lparr>processed := processed st1 @ map filename local_arrivals\<rparr>
               in case up_by_files E local_arrivals (RStr (remote_dir s)) (default_session E) w3 of
                    (Inl e, w4) \<Rightarrow> (Inl e, w4)
                  | (Inr _, w4) \<Rightarrow> up_down_remote_half E s new_remote st2 w4)
         else up_down_remote_half E s new_remote st1 w3)"

section \<open>Monitor\<close>

text \<open>
  The fields of \<open>Monitor\<close> that its methods change: the event \<open>running\<close> and the worker
  \<open>thread\<close>, which is \<open>None\<close> or the thread started for one of the three generators.
\<close>

datatype sync_method = m_up_down_by_arrival | m_up_by_arrival | m_down_by_arrival

record monitor =
  running :: bool
  thread :: "sync_method option"

definition monitor_init :: monitor where
  "monitor_init = \<lparr>running = False, thread = None\<rparr>"

text \<open>
  \<open>_run\<close>: \<open>assert self.thread is None\<close>, then set the event and start the thread. Every
  method returns what it raises, if anything, and the monitor as it leaves it.
\<close>

definition run :: "monitor \<Rightarrow> sync_method \<Rightarrow> (pyerror + unit) \<times> monitor" where
  "run m method =
     (if thread m \<noteq> None then (Inl AssertionError, m)
      else (Inr (), m\<lparr>running := True, thread := Some method\<rparr>))"

definition sync_both :: "monitor \<Rightarrow> (pyerror + unit) \<times> monitor" where
  "sync_both m = run m m_up_down_by_arrival"

definition sync_up :: "monitor \<Rightarrow> (pyerror + unit) \<times> monitor" where
  "sync_up m = run m m_up_by_arrival"

definition sync_down :: "monitor \<Rightarrow> (pyerror + unit) \<times> monitor" where
  "sync_down m = run m m_down_by_arrival"

definition stop :: "monitor \<Rightarrow> monitor" where
  "stop m = m\<lparr>running := False\<rparr>"

text \<open>
  \<open>join\<close>: \<open>if self.thread: self.thread.join()\<close>, which returns once the worker has left
  its loop, and then \<open>self.thread = None\<close>.
\<close>

definition join :: "monitor \<Rightarrow> (pyerror + unit) \<times> monitor" where
  "join m = (Inr (), m\<lparr>thread := None\<rparr>)"

section \<open>Events of a transfer\<close>




section \<open>A concrete session\<close>

definition ex_session :: session where
  "ex_session = \<lparr>url = ''http://flashair'', local_dir = ''/home/u/pics'',
                  remote_dir = ''/DCIM/100__TSB'', filters = []\<rparr>"

definition fileA :: fileinfo where
  "fileA = \<lparr>directory = ''/home/u/pics'', filename = ''A.jpg'',
             path = ''/home/u/pics/A.jpg'', size = 100, datetime = Some 5\<rparr>"

definition fileB :: fileinfo where
  "fileB = \<lparr>directory = ''/DCIM/100__TSB'', filename = ''B.jpg'',
             path = ''/DCIM/100__TSB/B.jpg'', size = 7, datetime = None\<rparr>"

text \<open>
  The local directory is empty at the first listing and holds \<open>A.jpg\<close> from the second
  on; the card is empty at the first listing and holds \<open>B.jpg\<close> afterwards, and reports a
  change at the second reading of its flag only. Every upload fails with
  \<open>ConnectionError\<close>; every download answers 200 with one chunk of 7 bytes.
\<close>

definition ex_env :: env where
  "ex_env = \<lparr>scandir = (\<lambda>n. if n = 0 then []
                             else [\<lparr>name = ''A.jpg'', is_file = True, st_size = 100, st_mtime = 5\<rparr>]),
              list_files = (\<lambda>n. if n = 0 then [] else [fileB]),
              memory_changed = (\<lambda>n. n = 1),
              map_files_raw = Map.empty,
              requests_get = (\<lambda>u. Inr \<lparr>status_code = 200, iter_content = [Chunk 7]\<rparr>),
              session_path = Inl AttributeError,
              upload_file = (\<lambda>p. Some ConnectionError),
              pbar_update = (\<lambda>v. None),
              default_session = ex_session\<rparr>"

text \<open>The same, with a local directory that stays empty.\<close>

definition ex_env_quiet :: env where
  "ex_env_quiet = ex_env\<lparr>scandir := (\<lambda>n. [])\<rparr>"

text \<open>The same, with a device that answers every request with status 404.\<close>

definition ex_env_404 :: env where
  "ex_env_404 = ex_env\<lparr>requests_get := (\<lambda>u. Inr \<lparr>status_code = 404, iter_content = []\<rparr>)\<rparr>"

text \<open>The same, with a progress bar whose update raises.\<close>

definition ex_env_pbar :: "pyerror \<Rightarrow> env" where
  "ex_env_pbar e = ex_env\<lparr>pbar_update := (\<lambda>v. Some e)\<rparr>"

text \<open>The same, with a card that holds \<open>B.jpg\<close> at every listing.\<close>

definition ex_env_steady :: env where
  "ex_env_steady = ex_env\<lparr>list_files := (\<lambda>n. [fileB])\<rparr>"

text \<open>
  The same, with a card that lists \<open>B.jpg\<close>, then nothing, then \<open>B.jpg\<close> again, and
  reports a change at every reading of its flag.
\<close>

definition ex_env_blink :: env where
  "ex_env_blink = ex_env\<lparr>list_files := (\<lambda>n. if n = 1 then [] else [fileB]),
                          memory_changed := (\<lambda>n. True)\<rparr>"

text \<open>
  The same, with a local directory that holds \<open>A.jpg\<close> from the first listing on; the
  file is written again, with the same size, before the second listing.
\<close>

definition ex_env_touch :: env where
  "ex_env_touch = ex_env\<lparr>scandir := (\<lambda>n. [\<lparr>name = ''A.jpg'', is_file = True, st_size = 100,
                                              st_mtime = (if n = 0 then 5 else 6)\<rparr>])\<rparr>"

definition world0 :: world where
  "world0 = \<lparr>scandir_calls = 0, list_calls = 0, changed_calls = 0, files = Map.empty, log = []\<rparr>"

section \<open>The watchers report what is new\<close>

lemmas ex_defs = ex_env_def ex_env_quiet_def ex_env_404_def ex_env_pbar_def ex_env_steady_def ex_env_blink_def
  ex_env_touch_def ex_session_def
  fileA_def fileB_def world0_def

lemmas watch_defs = watch_local_files_start_def watch_local_files_next_def
  watch_remote_files_start_def watch_remote_files_next_def list_local_files_def
  command_list_files_def command_memory_changed_def emit_def to_info_def path_join_def
  py_set_def set_diff_def local_key_def remote_key_def Let_def

lemma set_set_diff: "set (set_diff key new old) = {f \<in> set new. key f \<notin> key ` set old}"
  by (auto simp: set_diff_def)

lemma set_diff_empty: "key ` set new \<subseteq> key ` set old \<Longrightarrow> set_diff key new old = []"
  by (auto simp: set_diff_def filter_empty_conv)

lemma set_diff_self: "set_diff key xs xs = []"
  by (simp add: set_diff_empty)

lemma watch_local_files_start_tick:
  "fst (watch_local_files_start E s w) = ([], py_set local_key (fst (list_local_files E s w)))"
  by (simp add: watch_local_files_start_def set_diff_self Let_def split: prod.splits)

lemma watch_local_files_start_state:
  "watch_local_files_start E s w = (y, g, w1) \<Longrightarrow> snd g = snd y"
  by (auto simp: watch_local_files_start_def Let_def split: prod.splits)

lemma watch_local_files_next_tick:
  "watch_local_files_next E s g w = (y, g', w1) \<Longrightarrow>
     fst y = set_diff local_key (snd y) (snd g) \<and> snd g' = snd y"
  by (auto simp: watch_local_files_next_def Let_def split: prod.splits)

lemma watch_local_files_run:
  "watch_local_files E s n w = (ys, g, w1) \<Longrightarrow>
     length ys = Suc n \<and> snd g = snd (last ys) \<and>
     (\<forall>i<n. fst (ys ! Suc i) = set_diff local_key (snd (ys ! Suc i)) (snd (ys ! i)))"
proof (induction n arbitrary: ys g w1)
  case 0
  then show ?case
    by (auto split: prod.splits dest: watch_local_files_start_state)
next
  case (Suc n)
  obtain ys0 g0 w0 where r: "watch_local_files E s n w = (ys0, g0, w0)"
    by (cases "watch_local_files E s n w") auto
  obtain y g' w2 where nx: "watch_local_files_next E s g0 w0 = (y, g', w2)"
    by (cases "watch_local_files_next E s g0 w0") auto
  from Suc.prems r nx have ys: "ys = ys0 @ [y]" and g: "g = g'" by auto
  from Suc.IH[OF r] have len: "length ys0 = Suc n" and st: "snd g0 = snd (last ys0)"
    and ih: "\<forall>i<n. fst (ys0 ! Suc i) = set_diff local_key (snd (ys0 ! Suc i)) (snd (ys0 ! i))"
    by auto
  from watch_local_files_next_tick[OF nx]
  have y: "fst y = set_diff local_key (snd y) (snd g0)" and g': "snd g' = snd y" by auto
  have lastn: "last ys0 = ys0 ! n" using len by (metis diff_Suc_1 last_conv_nth length_0_conv nat.simps(3))
  have "fst (ys ! Suc i) = set_diff local_key (snd (ys ! Suc i)) (snd (ys ! i))" if "i < Suc n" for i
  proof (cases "i < n")
    case True
    then show ?thesis using ih len ys by (simp add: nth_append)
  next
    case False
    with that have "i = n" by simp
    then show ?thesis using y st lastn len ys by (simp add: nth_append)
  qed
  then show ?case using ys g g' len by simp
qed


lemma watch_remote_files_start_tick:
  "fst (watch_remote_files_start E s w) = ([], py_set remote_key (list_files E (list_calls w)))"
  by (simp add: watch_remote_files_start_def set_diff_self Let_def command_memory_changed_def
      command_list_files_def emit_def split: prod.splits)

lemma watch_remote_files_start_state:
  "watch_remote_files_start E s w = (y, g, w1) \<Longrightarrow> snd g = snd y"
  by (auto simp: watch_remote_files_start_def Let_def split: prod.splits)

lemma watch_remote_files_next_tick:
  "watch_remote_files_next E s g w = (y, g', w1) \<Longrightarrow>
     fst y = set_diff remote_key (snd y) (snd g) \<and> snd g' = snd y"
  by (auto simp: watch_remote_files_next_def Let_def split: prod.splits if_splits)

lemma watch_remote_files_run:
  "watch_remote_files E s n w = (ys, g, w1) \<Longrightarrow>
     length ys = Suc n \<and> snd g = snd (last ys) \<and>
     (\<forall>i<n. fst (ys ! Suc i) = set_diff remote_key (snd (ys ! Suc i)) (snd (ys ! i)))"
proof (induction n arbitrary: ys g w1)
  case 0
  then show ?case
    by (auto split: prod.splits dest: watch_remote_files_start_state)
next
  case (Suc n)
  obtain ys0 g0 w0 where r: "watch_remote_files E s n w = (ys0, g0, w0)"
    by (cases "watch_remote_files E s n w") auto
  obtain y g' w2 where nx: "watch_remote_files_next E s g0 w0 = (y, g', w2)"
    by (cases "watch_remote_files_next E s g0 w0") auto
  from Suc.prems r nx have ys: "ys = ys0 @ [y]" and g: "g = g'" by auto
  from Suc.IH[OF r] have len: "length ys0 = Suc n" and st: "snd g0 = snd (last ys0)"
    and ih: "\<forall>i<n. fst (ys0 ! Suc i) = set_diff remote_key (snd (ys0 ! Suc i)) (snd (ys0 ! i))"
    by auto
  from watch_remote_files_next_tick[OF nx]
  have y: "fst y = set_diff remote_key (snd y) (snd g0)" and g': "snd g' = snd y" by auto
  have lastn: "last ys0 = ys0 ! n" using len by (metis diff_Suc_1 last_conv_nth length_0_conv nat.simps(3))
  have "fst (ys ! Suc i) = set_diff remote_key (snd (ys ! Suc i)) (snd (ys ! i))" if "i < Suc n" for i
  proof (cases "i < n")
    case True
    then show ?thesis using ih len ys by (simp add: nth_append)
  next
    case False
    with that have "i = n" by simp
    then show ?thesis using y st lastn len ys by (simp add: nth_append)
  qed
  then show ?case using ys g g' len by simp
qed

lemma watch_local_files_hd:
  "fst (watch_local_files E s n w) ! 0 = fst (watch_local_files_start E s w)"
proof (induction n)
  case 0
  show ?case by (simp split: prod.splits)
next
  case (Suc n)
  obtain ys0 g0 w0 where r: "watch_local_files E s n w = (ys0, g0, w0)"
    by (cases "watch_local_files E s n w") auto
  then have "length ys0 = Suc n" using watch_local_files_run by blast
  then show ?case using Suc r by (simp add: nth_append split: prod.splits)
qed

lemma watch_remote_files_hd:
  "fst (watch_remote_files E s n w) ! 0 = fst (watch_remote_files_start E s w)"
proof (induction n)
  case 0
  show ?case by (simp split: prod.splits)
next
  case (Suc n)
  obtain ys0 g0 w0 where r: "watch_remote_files E s n w = (ys0, g0, w0)"
    by (cases "watch_remote_files E s n w") auto
  then have "length ys0 = Suc n" using watch_remote_files_run by blast
  then show ?case using Suc r by (simp add: nth_append split: prod.splits)
qed

lemma not_reported_while_present:
  assumes run: "\<And>i. i < n \<Longrightarrow> fst (ys ! Suc i) = set_diff key (snd (ys ! Suc i)) (snd (ys ! i))"
    and first: "fst (ys ! 0) = []"
    and i: "i \<le> n"
    and pres: "\<forall>j<i. k \<in> key ` set (snd (ys ! j))"
  shows "k \<notin> key ` set (fst (ys ! i))"
proof (cases i)
  case 0
  then show ?thesis using first by simp
next
  case (Suc i')
  then have "i' < n" using i by simp
  from run[OF this] have "set (fst (ys ! i)) = {f \<in> set (snd (ys ! i)). key f \<notin> key ` set (snd (ys ! i'))}"
    using Suc by (simp add: set_set_diff)
  moreover have "k \<in> key ` set (snd (ys ! i'))" using pres Suc by simp
  ultimately show ?thesis by (metis (mono_tags, lifting) image_iff mem_Collect_eq)
qed

text \<open>
  Claim C1. On every tick after the first, the arrivals a watcher yields are the records of
  the new snapshot whose identity key (\<open>local_key\<close>: filename, size and timestamp;
  \<open>remote_key\<close>: filename) is not in the snapshot yielded on the tick before, and they are
  empty when the two snapshots hold the same keys.
\<close>

theorem arrivals_new_minus_old:
  assumes "i < n"
  shows "(let ys = fst (watch_local_files E s n w); old = snd (ys ! i); new = snd (ys ! Suc i)
          in set (fst (ys ! Suc i)) = {f \<in> set new. local_key f \<notin> local_key ` set old} \<and>
             (local_key ` set new = local_key ` set old \<longrightarrow> fst (ys ! Suc i) = [])) \<and>
         (let ys = fst (watch_remote_files E s n w); old = snd (ys ! i); new = snd (ys ! Suc i)
          in set (fst (ys ! Suc i)) = {f \<in> set new. remote_key f \<notin> remote_key ` set old} \<and>
             (remote_key ` set new = remote_key ` set old \<longrightarrow> fst (ys ! Suc i) = []))"
proof -
  obtain ys g w1 where l: "watch_local_files E s n w = (ys, g, w1)"
    by (cases "watch_local_files E s n w") auto
  obtain zs h w2 where r: "watch_remote_files E s n w = (zs, h, w2)"
    by (cases "watch_remote_files E s n w") auto
  from watch_local_files_run[OF l] assms
  have a: "fst (ys ! Suc i) = set_diff local_key (snd (ys ! Suc i)) (snd (ys ! i))" by simp
  from watch_remote_files_run[OF r] assms
  have b: "fst (zs ! Suc i) = set_diff remote_key (snd (zs ! Suc i)) (snd (zs ! i))" by simp
  show ?thesis
    unfolding Let_def l r fst_conv
    using a b by (simp add: set_set_diff set_diff_empty)
qed

theorem arrivals_new_minus_old_witness:
  "(0::nat) < 1 \<and>
   fst (watch_local_files ex_env ex_session 1 world0) = [([], []), ([fileA], [fileA])] \<and>
   set [fileA] = {f \<in> set [fileA]. local_key f \<notin> local_key ` set []}"
proof -
  have h: "(0::nat) < 1" by simp
  have v: "fst (watch_local_files ex_env ex_session 1 world0) = [([], []), ([fileA], [fileA])]"
    by (simp add: ex_defs watch_defs)
  from arrivals_new_minus_old [OF h, of ex_env ex_session world0]
  have "set [fileA] = {f \<in> set [fileA]. local_key f \<notin> local_key ` set []}"
    unfolding v Let_def by simp
  with h v show ?thesis by blast
qed

text \<open>
  Claim C5. The remote watcher reads the change flag once, and lists once, before its first
  \<open>yield\<close>. On every later tick it reads the flag once: when the flag is set it lists the
  card again and yields the difference to the previous snapshot; when it is not, it does
  not list, yields no arrival and keeps the previous snapshot.
\<close>

theorem remote_watcher_change_signal:
  "(case watch_remote_files_start E s w of (y, g, w') \<Rightarrow>
      log w' = log w @ [MemoryChanged (memory_changed E (changed_calls w)), ListFiles]) \<and>
   (case watch_remote_files_next E s g w of (y, g', w') \<Rightarrow>
      if memory_changed E (changed_calls w)
      then log w' = log w @ [MemoryChanged True, ListFiles] \<and>
           snd y = py_set remote_key (list_files E (list_calls w)) \<and>
           fst y = set_diff remote_key (snd y) (snd g) \<and>
           list_calls w' = Suc (list_calls w)
      else log w' = log w @ [MemoryChanged False] \<and> y = ([], snd g) \<and>
           list_calls w' = list_calls w)"
  by (simp add: watch_remote_files_start_def watch_remote_files_next_def
      command_list_files_def command_memory_changed_def emit_def Let_def set_diff_self)


theorem remote_watcher_change_signal_witness:
  "(case watch_remote_files_next ex_env ex_session ([], []) (world0\<lparr>changed_calls := 1, list_calls := 1\<rparr>) of
      (y, g', w') \<Rightarrow> log w' = [MemoryChanged True, ListFiles] \<and> y = ([fileB], [fileB])) \<and>
   (case watch_remote_files_next ex_env ex_session ([], [fileB])
           (world0\<lparr>changed_calls := 2, list_calls := 1\<rparr>) of
      (y, g', w') \<Rightarrow> log w' = [MemoryChanged False] \<and> y = ([], [fileB]) \<and> list_calls w' = 1)"
proof -
  have a: "memory_changed ex_env (changed_calls (world0\<lparr>changed_calls := 1, list_calls := 1\<rparr>))"
    by (simp add: ex_env_def world0_def)
  have b: "\<not> memory_changed ex_env (changed_calls (world0\<lparr>changed_calls := 2, list_calls := 1\<rparr>))"
    by (simp add: ex_env_def world0_def)
  have c: "py_set remote_key (list_files ex_env 1) = [fileB]"
    by (simp add: ex_env_def world0_def py_set_def)
  have d: "set_diff remote_key [fileB] [] = [fileB]"
    by (simp add: set_diff_def)
  have l1: "log (world0\<lparr>changed_calls := 1, list_calls := 1\<rparr>) = []" "list_calls (world0\<lparr>changed_calls := 1, list_calls := 1\<rparr>) = 1" "log (world0\<lparr>changed_calls := 2, list_calls := 1\<rparr>) = []"
    "list_calls (world0\<lparr>changed_calls := 2, list_calls := 1\<rparr>) = 1"
    by (simp_all add: world0_def)
  from remote_watcher_change_signal [where E = ex_env and s = ex_session and g = "([], [])"
      and w = "world0\<lparr>changed_calls := 1, list_calls := 1\<rparr>"]
  have 1: "case watch_remote_files_next ex_env ex_session ([], []) (world0\<lparr>changed_calls := 1, list_calls := 1\<rparr>) of
      (y, g', w') \<Rightarrow> log w' = [MemoryChanged True, ListFiles] \<and> y = ([fileB], [fileB])"
    unfolding l1 using a c d by (auto split: prod.splits)
  from remote_watcher_change_signal [where E = ex_env and s = ex_session and g = "([], [fileB])"
      and w = "world0\<lparr>changed_calls := 2, list_calls := 1\<rparr>"]
  have 2: "case watch_remote_files_next ex_env ex_session ([], [fileB])
           (world0\<lparr>changed_calls := 2, list_calls := 1\<rparr>) of
      (y, g', w') \<Rightarrow> log w' = [MemoryChanged False] \<and> y = ([], [fileB]) \<and> list_calls w' = 1"
    unfolding l1 using b by (auto split: prod.splits)
  from 1 2 show ?thesis by blast
qed

text \<open>
  Claim C10, as stated, fails: a file that is there when watching begins is reported as an
  arrival later, on the card when it leaves a listing and comes back, and in the local
  directory when it is written again and its modification time changes.
\<close>

theorem present_at_start_reported_later:
  "fst (watch_remote_files ex_env_blink ex_session 2 world0) =
     [([], [fileB]), ([], []), ([fileB], [fileB])] \<and>
   fst (watch_local_files ex_env_touch ex_session 1 world0) =
     [([], [fileA]), ([fileA\<lparr>datetime := Some 6\<rparr>], [fileA\<lparr>datetime := Some 6\<rparr>])]"
  by (simp add: watch_defs ex_defs numeral_2_eq_2)

text \<open>
  Claim C10, amended. The first pair a watcher yields has no arrival and carries the
  initial snapshot; and a key that has been in every snapshot so far, as the key of a file
  that was there when watching began and has stayed, is not among the arrivals of a tick.
\<close>

theorem first_yield_is_empty:
  "fst (watch_local_files E s n w) ! 0 = ([], py_set local_key (fst (list_local_files E s w))) \<and>
   fst (watch_remote_files E s n w) ! 0 = ([], py_set remote_key (list_files E (list_calls w))) \<and>
   (\<forall>i\<le>n. (\<forall>j<i. k \<in> local_key ` set (snd (fst (watch_local_files E s n w) ! j))) \<longrightarrow>
      k \<notin> local_key ` set (fst (fst (watch_local_files E s n w) ! i))) \<and>
   (\<forall>i\<le>n. (\<forall>j<i. k' \<in> remote_key ` set (snd (fst (watch_remote_files E s n w) ! j))) \<longrightarrow>
      k' \<notin> remote_key ` set (fst (fst (watch_remote_files E s n w) ! i)))"
proof -
  obtain ys g w1 where l: "watch_local_files E s n w = (ys, g, w1)"
    by (cases "watch_local_files E s n w") auto
  obtain zs h w2 where r: "watch_remote_files E s n w = (zs, h, w2)"
    by (cases "watch_remote_files E s n w") auto
  have l0: "ys ! 0 = ([], py_set local_key (fst (list_local_files E s w)))"
    using watch_local_files_hd [of E s n w] l by (simp add: watch_local_files_start_tick)
  have r0: "zs ! 0 = ([], py_set remote_key (list_files E (list_calls w)))"
    using watch_remote_files_hd [of E s n w] r by (simp add: watch_remote_files_start_tick)
  have lrun: "\<And>i. i < n \<Longrightarrow> fst (ys ! Suc i) = set_diff local_key (snd (ys ! Suc i)) (snd (ys ! i))"
    using watch_local_files_run [OF l] by simp
  have rrun: "\<And>i. i < n \<Longrightarrow> fst (zs ! Suc i) = set_diff remote_key (snd (zs ! Suc i)) (snd (zs ! i))"
    using watch_remote_files_run [OF r] by simp
  have l0': "fst (ys ! 0) = []" using l0 by simp
  have r0': "fst (zs ! 0) = []" using r0 by simp
  have a: "k \<notin> local_key ` set (fst (ys ! i))"
    if "i \<le> n" "\<forall>j<i. k \<in> local_key ` set (snd (ys ! j))" for i
    by (rule not_reported_while_present [OF lrun l0' that])
  have b: "k' \<notin> remote_key ` set (fst (zs ! i))"
    if "i \<le> n" "\<forall>j<i. k' \<in> remote_key ` set (snd (zs ! j))" for i
    by (rule not_reported_while_present [OF rrun r0' that])
  show ?thesis unfolding l r fst_conv using l0 r0 a b by blast
qed

theorem first_yield_is_empty_witness:
  "fst (watch_remote_files ex_env_steady ex_session 2 world0) =
     [([], [fileB]), ([], [fileB]), ([], [fileB])] \<and>
   (2::nat) \<le> 2 \<and>
   ''B.jpg'' \<in> remote_key ` set (snd (fst (watch_remote_files ex_env_steady ex_session 2 world0) ! 0)) \<and>
   ''B.jpg'' \<in> remote_key ` set (snd (fst (watch_remote_files ex_env_steady ex_session 2 world0) ! 1)) \<and>
   ''B.jpg'' \<notin> remote_key ` set (fst (fst (watch_remote_files ex_env_steady ex_session 2 world0) ! 2))"
proof -
  have u: "fst (watch_remote_files ex_env_steady ex_session 2 world0) =
     [([], [fileB]), ([], [fileB]), ([], [fileB])]"
    by (simp add: ex_defs watch_defs numeral_2_eq_2)
  have p: "\<forall>j<2. ''B.jpg'' \<in> remote_key ` set (snd (fst (watch_remote_files ex_env_steady ex_session 2 world0) ! j))"
    unfolding u by (simp add: less_Suc_eq numeral_2_eq_2 remote_key_def fileB_def)
  have q: "(2::nat) \<le> 2" by simp
  note t = first_yield_is_empty [of ex_env_steady ex_session 2 world0 "local_key fileA" "''B.jpg''",
      THEN conjunct2, THEN conjunct2, THEN conjunct2, rule_format, OF q]
  have r: "''B.jpg'' \<notin> remote_key ` set (fst (fst (watch_remote_files ex_env_steady ex_session 2 world0) ! 2))"
    by (rule t) (use p in blast)
  have p0: "''B.jpg'' \<in> remote_key ` set (snd (fst (watch_remote_files ex_env_steady ex_session 2 world0) ! 0))"
    using p by simp
  have p1: "''B.jpg'' \<in> remote_key ` set (snd (fst (watch_remote_files ex_env_steady ex_session 2 world0) ! 1))"
    using p by simp
  show ?thesis using u p0 p1 q r by (intro conjI)
qed

lemmas down_defs = sync_remote_file_def stream_to_file_def get_file_def urljoin_def
  write_file_safely_def write_file_def os_remove_def update_pbar_def emit_def path_join_def Let_def

lemmas up_defs = sync_local_file_def stream_from_file_def upload_file_safely_def delete_file_def
  emit_def Let_def

lemma sync_local_file_same_size:
  "m (filename f) = Some r \<Longrightarrow> size r = size f \<Longrightarrow> sync_local_file E f (RDict m) s w = (Inr (), w)"
  by (simp add: sync_local_file_def Let_def)

lemma sync_local_file_other_size:
  "m (filename f) = Some r \<Longrightarrow> size r \<noteq> size f \<Longrightarrow>
   sync_local_file E f (RDict m) s w =
     upload_file_safely E (VFileInfo f) (VSession s) (delete_file (path r) w)"
  by (simp add: sync_local_file_def stream_from_file_def Let_def)

lemma sync_local_file_absent:
  "m (filename f) = None \<Longrightarrow> \<exists>e. sync_local_file E f (RDict m) s w = (Inl e, w)"
  by (simp add: sync_local_file_def stream_from_file_def Let_def split: sum.splits)

lemma sync_remote_file_same_size:
  "files w (path_join (local_dir s) (filename f)) = Some (size f) \<Longrightarrow>
   sync_remote_file E f s w = (Inr (), w)"
  by (simp add: sync_remote_file_def Let_def)

lemma sync_remote_file_other_size:
  "files w (path_join (local_dir s) (filename f)) = Some n \<Longrightarrow> n \<noteq> size f \<Longrightarrow>
   sync_remote_file E f s w =
     stream_to_file E (path_join (local_dir s) (filename f)) f s
       (emit (OsRemove (path_join (local_dir s) (filename f)))
          (w\<lparr>files := (files w)(path_join (local_dir s) (filename f) := None)\<rparr>))"
  by (simp add: sync_remote_file_def os_remove_def Let_def)

lemma sync_remote_file_absent:
  "files w (path_join (local_dir s) (filename f)) = None \<Longrightarrow>
   sync_remote_file E f s w = stream_to_file E (path_join (local_dir s) (filename f)) f s w"
  by (simp add: sync_remote_file_def Let_def)

text \<open>
  Claim C2. The three decisions hold for a download (\<open>sync_remote_file_same_size\<close>,
  \<open>sync_remote_file_other_size\<close>, \<open>sync_remote_file_absent\<close>) and the first two for an
  upload. A local file that is absent from the card is not uploaded: the call that should
  upload it passes its arguments in the wrong order and raises before any transfer.
\<close>

theorem sync_local_file_absent_raises:
  "sync_local_file ex_env fileA (RDict Map.empty) ex_session world0 = (Inl AttributeError, world0)"
  by (simp add: up_defs ex_defs)

text \<open>
  Claim C3. When an upload fails, the device is asked to delete the path of the local file,
  not the path the file has on the card; the error of the upload is the one raised.
\<close>

theorem upload_cleanup_deletes_local_path:
  "upload_file_safely ex_env (VFileInfo fileA) (VSession ex_session) world0 =
     (Inl ConnectionError,
      world0\<lparr>log := [UploadFile ''/home/u/pics/A.jpg'', DeleteFile ''/home/u/pics/A.jpg'']\<rparr>) \<and>
   path_join (remote_dir ex_session) (filename fileA) = ''/DCIM/100__TSB/A.jpg''"
  by (simp add: up_defs ex_defs path_join_def)

lemma write_file_other_status:
  "status_code r \<noteq> 200 \<Longrightarrow> write_file E p fi r w = (Inl RequestException, w)"
  by (simp add: write_file_def)

text \<open>
  Claim C6. With a status other than 200 \<open>_write_file\<close> raises the transfer error and
  opens nothing (\<open>write_file_other_status\<close>), but the cleanup of \<open>_write_file_safely\<close> then
  removes a file that was never created: the caller of the download gets
  \<open>FileNotFoundError\<close>, not the transfer error.
\<close>

theorem download_404_raises_file_not_found:
  "sync_remote_file ex_env_404 fileB ex_session world0 =
     (Inl FileNotFoundError, world0\<lparr>log := [GetFile ''http://flashair/DCIM/100__TSB/B.jpg'']\<rparr>)"
  by (simp add: down_defs ex_defs)

text \<open>
  Claim C8, as stated, fails: a second start raises \<open>AssertionError\<close>.
\<close>

theorem start_while_running_raises:
  "sync_up (snd (sync_up monitor_init)) =
     (Inl AssertionError, \<lparr>running = True, thread = Some m_up_by_arrival\<rparr>)"
  by (simp add: sync_up_def run_def monitor_init_def)

text \<open>
  Claim C8, amended. A start method called while the worker handle is set raises
  \<open>AssertionError\<close> and leaves the monitor as it was; \<open>join\<close> with no worker raises nothing
  and leaves the running flag and the empty handle as they were.
\<close>

theorem start_asserts_idle_join_is_benign:
  "(thread m \<noteq> None \<longrightarrow>
      sync_up m = (Inl AssertionError, m) \<and> sync_down m = (Inl AssertionError, m) \<and>
      sync_both m = (Inl AssertionError, m)) \<and>
   (thread m = None \<longrightarrow> join m = (Inr (), m))"
  by (auto simp: sync_up_def sync_down_def sync_both_def run_def join_def)

theorem start_asserts_idle_join_is_benign_witness:
  "thread \<lparr>running = True, thread = Some m_up_by_arrival\<rparr> \<noteq> None \<and>
   sync_down \<lparr>running = True, thread = Some m_up_by_arrival\<rparr> =
     (Inl AssertionError, \<lparr>running = True, thread = Some m_up_by_arrival\<rparr>) \<and>
   thread monitor_init = None \<and> join monitor_init = (Inr (), monitor_init)"
  using start_asserts_idle_join_is_benign [of "\<lparr>running = True, thread = Some m_up_by_arrival\<rparr>"]
    start_asserts_idle_join_is_benign [of monitor_init]
  by (simp add: monitor_init_def)

lemma update_pbar_Exception:
  "(\<forall>e. pbar_update E (max (len div 500000) 1) = Some e \<longrightarrow> is_Exception e) \<Longrightarrow>
   update_pbar E len w = (Inr (), emit (PbarUpdate (max (len div 500000) 1)) w)"
  by (simp add: update_pbar_def Let_def split: option.splits)

lemma update_pbar_quiet:
  "update_pbar (E\<lparr>pbar_update := (\<lambda>v. None)\<rparr>) len w =
     (Inr (), emit (PbarUpdate (max (len div 500000) 1)) w)"
  by (simp add: update_pbar_def Let_def)

lemma write_chunks_pbar:
  "(\<forall>v e. pbar_update E v = Some e \<longrightarrow> is_Exception e) \<Longrightarrow>
   write_chunks E p cs w = write_chunks (E\<lparr>pbar_update := (\<lambda>v. None)\<rparr>) p cs w"
proof (induction E p cs w rule: write_chunks.induct)
  case (1 E p w)
  show ?case by simp
next
  case (2 E p e cs w)
  show ?case by simp
next
  case (3 E p n cs w)
  have u: "update_pbar E n w = (Inr (), emit (PbarUpdate (max (n div 500000) 1)) w)"
    using "3.prems" by (simp add: update_pbar_Exception)
  show ?case
    using "3.IH" [OF u [symmetric] refl "3.prems"]
    by (simp add: u update_pbar_quiet)
qed

text \<open>
  Claim C9, as stated, fails: an error that is not an \<open>Exception\<close>, raised by the update of
  the progress bar, leaves \<open>_update_pbar\<close> and ends the download.
\<close>

theorem pbar_keyboard_interrupt_aborts:
  "fst (update_pbar (ex_env_pbar KeyboardInterrupt) 7 world0) = Inl KeyboardInterrupt \<and>
   fst (sync_remote_file (ex_env_pbar KeyboardInterrupt) fileB ex_session world0) =
     Inl KeyboardInterrupt"
  by (simp add: down_defs ex_defs)

text \<open>
  Claim C9, amended. Every error deriving from \<open>Exception\<close> that the update of the progress
  bar raises is caught inside \<open>_update_pbar\<close>, and the download then does what it does with
  a progress bar that never fails.
\<close>

theorem progress_errors_do_not_abort:
  assumes "\<forall>v e. pbar_update E v = Some e \<longrightarrow> is_Exception e"
  shows "fst (update_pbar E len w) = Inr () \<and>
         write_file_safely E p fi r w =
           write_file_safely (E\<lparr>pbar_update := (\<lambda>v. None)\<rparr>) p fi r w"
  using assms write_chunks_pbar [OF assms]
  by (simp add: update_pbar_Exception write_file_safely_def write_file_def)

theorem progress_errors_do_not_abort_witness:
  "pbar_update (ex_env_pbar RuntimeError) 1 = Some RuntimeError \<and>
   is_Exception RuntimeError \<and>
   fst (update_pbar (ex_env_pbar RuntimeError) 7 world0) = Inr () \<and>
   fst (sync_remote_file (ex_env_pbar RuntimeError) fileB ex_session world0) = Inr ()"
proof -
  have h: "\<forall>v e. pbar_update (ex_env_pbar RuntimeError) v = Some e \<longrightarrow> is_Exception e"
    by (simp add: ex_defs)
  have d: "fst (sync_remote_file (ex_env_pbar RuntimeError) fileB ex_session world0) = Inr ()"
    by (simp add: down_defs ex_defs)
  have c: "pbar_update (ex_env_pbar RuntimeError) 1 = Some RuntimeError \<and> is_Exception RuntimeError"
    by (simp add: ex_defs)
  from progress_errors_do_not_abort [OF h, of 7 world0] c d show ?thesis by blast
qed

text \<open>
  Claim C4. In a tick with a new file on the card, the pair for the download direction is
  yielded twice before the download, not once.
\<close>

theorem up_down_tick_yields_down_twice:
  "log (snd (case up_down_by_arrival_start ex_env_quiet ex_session world0 of
               (st, w) \<Rightarrow> up_down_by_arrival_tick ex_env_quiet ex_session st w)) =
     [ScanDir, MemoryChanged False, ListFiles, ScanDir, MemoryChanged True, ListFiles,
      Yield up [], Yield down [fileB], Yield down [fileB],
      GetFile ''http://flashair/DCIM/100__TSB/B.jpg'', OpenFile ''/home/u/pics/B.jpg'',
      PbarUpdate 1, WriteChunk ''/home/u/pics/B.jpg'' 7]"
  by (simp add: up_down_by_arrival_start_def up_down_by_arrival_tick_def up_down_remote_half_def
      watch_defs down_defs ex_defs)






subsection \<open>A download appends download events only\<close>









subsection \<open>An upload appends upload events only\<close>









subsection \<open>One tick of each orchestrator\<close>






text \<open>
  The orchestrators call \<open>up_by_files(arrivals, remote_dir)\<close>: the name of the remote
  directory is bound to \<open>remote_files\<close>. With an arrival the call raises before anything is
  uploaded: \<open>TypeError\<close> when the filename occurs in the name of the directory, else the
  error of \<open>_stream_from_file(session, local_file_info)\<close>.
\<close>

lemma upload_with_directory_raises:
  "\<exists>e. up_by_files E (f # fs) (RStr d) s w = (Inl e, w)"
  by (simp add: up_by_files_def sync_local_file_def stream_from_file_def Let_def
      split: sum.splits)

text \<open>
  The upload generator on the example: the pair is yielded, then the upload is
  attempted and raises.
\<close>

lemma up_tick_example:
  "(case up_by_arrival_start ex_env ex_session world0 of
      (g, w) \<Rightarrow> (fst (up_by_arrival_tick ex_env ex_session g w),
                 log (snd (up_by_arrival_tick ex_env ex_session g w)))) =
     (Inl AttributeError, [ScanDir, ScanDir, Yield up [fileA]])"
  by (simp add: up_by_arrival_start_def up_by_arrival_tick_def up_by_files_def watch_defs up_defs ex_defs)

text \<open>The download generator on the example: the download, then the pair.\<close>

lemma down_tick_example:
  "(case down_by_arrival_start ex_env ex_session world0 of
      (g, w) \<Rightarrow> log (snd (down_by_arrival_tick ex_env ex_session g w))) =
     [MemoryChanged False, ListFiles, MemoryChanged True, ListFiles,
      GetFile ''http://flashair/DCIM/100__TSB/B.jpg'', OpenFile ''/home/u/pics/B.jpg'',
      PbarUpdate 1, WriteChunk ''/home/u/pics/B.jpg'' 7, Yield down [fileB]]"
  by (simp add: down_by_arrival_start_def down_by_arrival_tick_def watch_defs down_defs ex_defs)


end
